theory Spec2Isabelle
  imports Complex_Main "HOL-Library.Word"
begin

section \<open>Strings and numbers of the host language\<close>

text \<open>
  A JavaScript string is a sequence of 16-bit code units; \<open>length\<close>,
  \<open>substring\<close> and \<open>padStart\<close> count code units. ASCII literals of the
  source are written with \<open>ascii\<close>; the non-ASCII literals are given by their
  code units.

  A JavaScript \<open>number\<close> is modelled as an exact rational. The image dimensions
  the program divides are whole numbers far below \<open>2 ^ 53\<close>, for which the
  truncation of a quotient computed in double precision is the truncation of the exact
  quotient; rounding in the last place of a double is not modelled.
\<close>

type_synonym js_string = "16 word list"

type_synonym number = rat

definition ascii :: "string \<Rightarrow> js_string" where
  "ascii s = map of_char s"

text \<open>\<open>Number.prototype.toString()\<close> on a non-negative whole number: its decimal digits.\<close>

definition digit_unit :: "nat \<Rightarrow> 16 word" where
  "digit_unit d = of_nat (48 + d)"

function toString :: "nat \<Rightarrow> js_string" where
  "toString n = (if n < 10 then [digit_unit n] else toString (n div 10) @ [digit_unit (n mod 10)])"
  by pat_completeness auto
termination
  by (relation "measure (\<lambda>n. n)") auto

declare toString.simps [simp del]

text \<open>
  \<open>String.prototype.padStart(targetLength, padString)\<close>: the string is returned
  unchanged when it is long enough or the pad string is empty; otherwise the pad string is
  repeated and cut to the missing length, and put in front.
\<close>

definition repeat_to :: "nat \<Rightarrow> 'a list \<Rightarrow> 'a list" where
  "repeat_to n p = take n (concat (replicate n p))"

definition padStart :: "nat \<Rightarrow> js_string \<Rightarrow> js_string \<Rightarrow> js_string" where
  "padStart targetLength padString s =
     (if targetLength \<le> length s \<or> padString = [] then s
      else repeat_to (targetLength - length s) padString @ s)"

text \<open>A rejected promise carries an \<open>Error\<close> with a message, or some other value.\<close>

datatype js_error = Error js_string | NonError

section \<open>Images and the canvas of the host\<close>

text \<open>
  A decoded image: whole-number dimensions and a pixel at each position. The pixel type is
  left open.
\<close>

record 'p image =
  width :: nat
  height :: nat
  pixel_at :: "nat \<Rightarrow> nat \<Rightarrow> 'p"

text \<open>
  What a canvas pixel holds: \<open>Blank\<close> is transparent black, the state after the
  canvas is resized or cleared; \<open>Copied p\<close> is the source pixel \<open>p\<close> drawn
  at unit scale on a whole-pixel offset, fully covered; \<open>Scaled\<close> is a pixel fully
  covered by source content that the host resampled; \<open>Unknown\<close> is a pixel only
  partly covered by what was drawn (an anti-aliased edge), whose value the host decides.
\<close>

datatype 'p cpixel = Blank | Copied 'p | Scaled | Unknown

datatype coverage = Outside | Partial | Inside

fun both :: "coverage \<Rightarrow> coverage \<Rightarrow> coverage" where
  "both Outside _ = Outside"
| "both _ Outside = Outside"
| "both Inside Inside = Inside"
| "both _ _ = Partial"

text \<open>How the unit square of pixel \<open>(x, y)\<close> lies in the rectangle \<open>[rx, rx + rw] \<times> [ry, ry + rh]\<close>.\<close>

definition rect_coverage :: "number \<Rightarrow> number \<Rightarrow> number \<Rightarrow> number \<Rightarrow> nat \<Rightarrow> nat \<Rightarrow> coverage" where
  "rect_coverage rx ry rw rh x y =
     (if rx \<le> of_nat x \<and> of_nat x + 1 \<le> rx + rw \<and> ry \<le> of_nat y \<and> of_nat y + 1 \<le> ry + rh
      then Inside
      else if of_nat x + 1 \<le> rx \<or> rx + rw \<le> of_nat x \<or> of_nat y + 1 \<le> ry \<or> ry + rh \<le> of_nat y
      then Outside
      else Partial)"

text \<open>
  The current path of the context is the list of the path commands issued since
  \<open>beginPath\<close>. The one path the program builds runs around a rectangle of width
  \<open>w\<close> and height \<open>h\<close> with its corners rounded by quadratic curves: from
  \<open>(r, 0)\<close> along the top edge to \<open>(w - r, 0)\<close>, a quadratic curve with
  control point \<open>(w, 0)\<close> to \<open>(w, r)\<close>, and so on around the four corners.
\<close>

datatype path_cmd = MoveTo number number | LineTo number number
  | QuadraticCurveTo number number number number | ClosePath

definition rounded_rect_path :: "number \<Rightarrow> number \<Rightarrow> number \<Rightarrow> path_cmd list" where
  "rounded_rect_path w h r =
     [MoveTo r 0, LineTo (w - r) 0, QuadraticCurveTo w 0 w r, LineTo w (h - r),
      QuadraticCurveTo w h (w - r) h, LineTo r h, QuadraticCurveTo 0 h 0 (h - r), LineTo 0 r,
      QuadraticCurveTo 0 0 r 0, ClosePath]"

fun first_arg :: "path_cmd \<Rightarrow> number" where
  "first_arg (MoveTo x y) = x"
| "first_arg (LineTo x y) = x"
| "first_arg (QuadraticCurveTo cx cy x y) = cx"
| "first_arg ClosePath = 0"

fun second_arg :: "path_cmd \<Rightarrow> number" where
  "second_arg (MoveTo x y) = y"
| "second_arg (LineTo x y) = y"
| "second_arg (QuadraticCurveTo cx cy x y) = cy"
| "second_arg ClosePath = 0"

text \<open>
  Whether a path is such a rounded rectangle, with a radius that leaves the four curves
  apart, and if so its width, height and radius.
\<close>

definition as_rounded_rect :: "path_cmd list \<Rightarrow> (number \<times> number \<times> number) option" where
  "as_rounded_rect p =
     (if length p = 10 then
        (let r = first_arg (p ! 0); w = first_arg (p ! 2); h = second_arg (p ! 4)
         in if p = rounded_rect_path w h r \<and> 0 \<le> r \<and> 2 * r \<le> w \<and> 2 * r \<le> h
            then Some (w, h, r) else None)
      else None)"

text \<open>
  A quadratic curve from \<open>(0, r)\<close> to \<open>(r, 0)\<close> with control point
  \<open>(0, 0)\<close> is the set of points \<open>(t\<^sup>2 r, (1 - t)\<^sup>2 r)\<close>, that is
  \<open>sqrt u + sqrt v = sqrt r\<close>; a point at distances \<open>u\<close>, \<open>v\<close> from the
  two edges that meet in a corner is cut off by the curve when
  \<open>sqrt u + sqrt v < sqrt r\<close>, which in rational arithmetic is
  \<open>u + v < r \<and> 4 u v < (r - u - v)\<^sup>2\<close>.
\<close>

definition quadratic_curve :: "number \<times> number \<Rightarrow> number \<times> number \<Rightarrow> number \<times> number \<Rightarrow> number \<Rightarrow> number \<times> number" where
  "quadratic_curve p0 p1 p2 t =
     ((1 - t)\<^sup>2 * fst p0 + 2 * t * (1 - t) * fst p1 + t\<^sup>2 * fst p2,
      (1 - t)\<^sup>2 * snd p0 + 2 * t * (1 - t) * snd p1 + t\<^sup>2 * snd p2)"

definition corner_cut :: "number \<Rightarrow> number \<Rightarrow> number \<Rightarrow> bool" where
  "corner_cut r u v \<longleftrightarrow> 0 \<le> u \<and> 0 \<le> v \<and> u + v < r \<and> 4 * u * v < (r - u - v)\<^sup>2"

definition in_rounded_rect :: "number \<Rightarrow> number \<Rightarrow> number \<Rightarrow> number \<times> number \<Rightarrow> bool" where
  "in_rounded_rect w h r p \<longleftrightarrow>
     0 \<le> fst p \<and> fst p \<le> w \<and> 0 \<le> snd p \<and> snd p \<le> h \<and>
     \<not> corner_cut r (fst p) (snd p) \<and> \<not> corner_cut r (w - fst p) (snd p) \<and>
     \<not> corner_cut r (fst p) (h - snd p) \<and> \<not> corner_cut r (w - fst p) (h - snd p)"

text \<open>
  A clip region: the whole canvas, the inside of a rounded rectangle, or a region that is
  not modelled, of which no pixel is known to be in or out.
\<close>

datatype clip_region = Whole | RoundedRect number number number | Unmodelled

text \<open>
  A pixel lies wholly outside the rounded rectangle when its square is beyond the
  bounding box or inside one of the four cut-off corners (the corner of the square
  farthest from the canvas corner is cut off); wholly inside when its four corners are in
  the region, which is convex.
\<close>

definition pixel_outside :: "number \<Rightarrow> number \<Rightarrow> number \<Rightarrow> nat \<Rightarrow> nat \<Rightarrow> bool" where
  "pixel_outside w h r x y \<longleftrightarrow>
     w \<le> of_nat x \<or> h \<le> of_nat y \<or>
     corner_cut r (of_nat x + 1) (of_nat y + 1) \<or> corner_cut r (w - of_nat x) (of_nat y + 1) \<or>
     corner_cut r (of_nat x + 1) (h - of_nat y) \<or> corner_cut r (w - of_nat x) (h - of_nat y)"

definition pixel_inside :: "number \<Rightarrow> number \<Rightarrow> number \<Rightarrow> nat \<Rightarrow> nat \<Rightarrow> bool" where
  "pixel_inside w h r x y \<longleftrightarrow>
     in_rounded_rect w h r (of_nat x, of_nat y) \<and> in_rounded_rect w h r (of_nat x + 1, of_nat y) \<and>
     in_rounded_rect w h r (of_nat x, of_nat y + 1) \<and> in_rounded_rect w h r (of_nat x + 1, of_nat y + 1)"

fun clip_coverage :: "clip_region \<Rightarrow> nat \<Rightarrow> nat \<Rightarrow> coverage" where
  "clip_coverage Whole x y = Inside"
| "clip_coverage (RoundedRect w h r) x y =
     (if pixel_inside w h r x y then Inside
      else if pixel_outside w h r x y then Outside
      else Partial)"
| "clip_coverage Unmodelled x y = Partial"

text \<open>
  The canvas with its 2D context: the bitmap, the current path, the current clip region
  and the stack of saved context states (of which the clip region is the part that
  matters here; the current path is not saved).
\<close>

record 'p canvas =
  cv_width :: nat
  cv_height :: nat
  bitmap :: "nat \<Rightarrow> nat \<Rightarrow> 'p cpixel"
  path :: "path_cmd list"
  clipping :: clip_region
  saved :: "clip_region list"

definition createElement_canvas :: "'p canvas" where
  "createElement_canvas =
     \<lparr>cv_width = 300, cv_height = 150, bitmap = (\<lambda>x y. Blank), path = [], clipping = Whole,
      saved = []\<rparr>"

text \<open>
  Assigning a number to \<open>canvas.width\<close> or \<open>canvas.height\<close> truncates it to a
  whole number of pixels, clears the bitmap and resets the context state. The attribute is
  an unsigned integer; the model is for non-negative values below \<open>2 ^ 31\<close>, beyond
  which the host falls back to its default size, and within the size of canvas the host
  can allocate.
\<close>

definition to_dimension :: "number \<Rightarrow> nat" where
  "to_dimension v = nat \<lfloor>v\<rfloor>"

definition set_width :: "number \<Rightarrow> 'p canvas \<Rightarrow> 'p canvas" where
  "set_width v c =
     c\<lparr>cv_width := to_dimension v, bitmap := (\<lambda>x y. Blank), path := [], clipping := Whole,
       saved := []\<rparr>"

definition set_height :: "number \<Rightarrow> 'p canvas \<Rightarrow> 'p canvas" where
  "set_height v c =
     c\<lparr>cv_height := to_dimension v, bitmap := (\<lambda>x y. Blank), path := [], clipping := Whole,
       saved := []\<rparr>"

text \<open>\<open>ctx.clearRect\<close>: pixels of the rectangle, within the clip region, become transparent.\<close>

definition clearRect :: "number \<Rightarrow> number \<Rightarrow> number \<Rightarrow> number \<Rightarrow> 'p canvas \<Rightarrow> 'p canvas" where
  "clearRect rx ry rw rh c =
     c\<lparr>bitmap := (\<lambda>x y.
          case both (rect_coverage rx ry rw rh x y) (clip_coverage (clipping c) x y) of
            Outside \<Rightarrow> bitmap c x y
          | Inside \<Rightarrow> Blank
          | Partial \<Rightarrow> (if bitmap c x y = Blank then Blank else Unknown))\<rparr>"

text \<open>The path commands of the context.\<close>

definition beginPath :: "'p canvas \<Rightarrow> 'p canvas" where
  "beginPath c = c\<lparr>path := []\<rparr>"

definition moveTo :: "number \<Rightarrow> number \<Rightarrow> 'p canvas \<Rightarrow> 'p canvas" where
  "moveTo x y c = c\<lparr>path := path c @ [MoveTo x y]\<rparr>"

definition lineTo :: "number \<Rightarrow> number \<Rightarrow> 'p canvas \<Rightarrow> 'p canvas" where
  "lineTo x y c = c\<lparr>path := path c @ [LineTo x y]\<rparr>"

definition quadraticCurveTo :: "number \<Rightarrow> number \<Rightarrow> number \<Rightarrow> number \<Rightarrow> 'p canvas \<Rightarrow> 'p canvas" where
  "quadraticCurveTo cx cy x y c = c\<lparr>path := path c @ [QuadraticCurveTo cx cy x y]\<rparr>"

definition closePath :: "'p canvas \<Rightarrow> 'p canvas" where
  "closePath c = c\<lparr>path := path c @ [ClosePath]\<rparr>"

text \<open>
  \<open>ctx.save\<close>, \<open>ctx.restore\<close> and \<open>ctx.clip\<close>. The new clip region is
  the intersection of the current one with the inside of the current path; it is modelled
  when the current region is the whole canvas and the path is a rounded rectangle.
\<close>

definition save :: "'p canvas \<Rightarrow> 'p canvas" where
  "save c = c\<lparr>saved := clipping c # saved c\<rparr>"

definition restore :: "'p canvas \<Rightarrow> 'p canvas" where
  "restore c = (case saved c of [] \<Rightarrow> c | s # ss \<Rightarrow> c\<lparr>clipping := s, saved := ss\<rparr>)"

definition clip :: "'p canvas \<Rightarrow> 'p canvas" where
  "clip c =
     c\<lparr>clipping :=
         (case as_rounded_rect (path c) of
            Some (w, h, r) \<Rightarrow> (if clipping c = Whole then RoundedRect w h r else Unmodelled)
          | None \<Rightarrow> Unmodelled)\<rparr>"

text \<open>
  \<open>ctx.drawImage(img, sx, sy, sw, sh, dx, dy, dw, dh)\<close> with a source rectangle
  inside the image. A canvas pixel wholly inside the destination rectangle and the clip
  region is painted: with the source pixel itself when the scale is one and the offset
  between source and destination is a whole number of pixels, with resampled content
  otherwise. A pixel wholly outside keeps its value; a pixel partly covered is
  host-dependent. Painting is onto a cleared pixel; over another value the result of
  compositing is host-dependent.
\<close>

definition is_whole :: "number \<Rightarrow> bool" where
  "is_whole v \<longleftrightarrow> of_int \<lfloor>v\<rfloor> = v"

definition source_sample :: "'p image \<Rightarrow> number \<Rightarrow> number \<Rightarrow> number \<Rightarrow> number \<Rightarrow>
    number \<Rightarrow> number \<Rightarrow> number \<Rightarrow> number \<Rightarrow> nat \<Rightarrow> nat \<Rightarrow> 'p cpixel" where
  "source_sample img sx sy sw sh dx dy dw dh x y =
     (if sw = dw \<and> sh = dh \<and> is_whole (sx - dx) \<and> is_whole (sy - dy) then
        (let i = int x + \<lfloor>sx - dx\<rfloor>; j = int y + \<lfloor>sy - dy\<rfloor>
         in if 0 \<le> i \<and> i < int (width img) \<and> 0 \<le> j \<and> j < int (height img)
            then Copied (pixel_at img (nat i) (nat j)) else Unknown)
      else Scaled)"

definition drawImage9 :: "'p image \<Rightarrow> number \<Rightarrow> number \<Rightarrow> number \<Rightarrow> number \<Rightarrow>
    number \<Rightarrow> number \<Rightarrow> number \<Rightarrow> number \<Rightarrow> 'p canvas \<Rightarrow> 'p canvas" where
  "drawImage9 img sx sy sw sh dx dy dw dh c =
     c\<lparr>bitmap := (\<lambda>x y.
          case both (rect_coverage dx dy dw dh x y) (clip_coverage (clipping c) x y) of
            Outside \<Rightarrow> bitmap c x y
          | Inside \<Rightarrow> (if bitmap c x y = Blank
                       then source_sample img sx sy sw sh dx dy dw dh x y else Unknown)
          | Partial \<Rightarrow> Unknown)\<rparr>"

definition drawImage5 :: "'p image \<Rightarrow> number \<Rightarrow> number \<Rightarrow> number \<Rightarrow> number \<Rightarrow> 'p canvas \<Rightarrow> 'p canvas" where
  "drawImage5 img dx dy dw dh c =
     drawImage9 img 0 0 (of_nat (width img)) (of_nat (height img)) dx dy dw dh c"

text \<open>
  \<open>canvas.toDataURL\<close> encodes the bitmap; the encoded bytes are represented by the
  MIME type and the raster they hold: the bitmap itself for PNG, which is lossless, and
  host-dependent values for a lossy format. The blob built from the data URL holds the
  same bytes. Positions beyond the raster read as \<open>Blank\<close>.
\<close>

record 'p encoded =
  mime :: js_string
  enc_width :: nat
  enc_height :: nat
  pixels :: "nat \<Rightarrow> nat \<Rightarrow> 'p cpixel"

definition toDataURL :: "js_string \<Rightarrow> 'p canvas \<Rightarrow> 'p encoded" where
  "toDataURL mimeType c =
     \<lparr>mime = mimeType, enc_width = cv_width c, enc_height = cv_height c,
      pixels = (\<lambda>x y. if x < cv_width c \<and> y < cv_height c
                      then (if mimeType = ascii ''image/png'' then bitmap c x y
                            else if bitmap c x y = Blank then Unknown else Scaled)
                      else Blank)\<rparr>"

text \<open>
  The host: its image decoder (\<open>None\<close> when \<open>onerror\<close> fires, the decoded image
  when \<open>onload\<close> fires) and whether a canvas gives out a 2D context.
\<close>

record 'p host =
  decode :: "js_string \<Rightarrow> 'p image option"
  has_context :: bool

section \<open>The grid slicer\<close>

definition COLS :: nat where
  "COLS = 6"

definition ROWS :: nat where
  "ROWS = 4"

record 'p file_asset =
  blob :: "'p encoded"
  dataUrl :: "'p encoded"
  fileName :: js_string

record 'p SlicedImage = "'p file_asset" +
  slice_id :: js_string

text \<open>
  The body of the inner loop of \<open>sliceMemeGrid\<close>, in two parts: the canvas
  operations for cell \<open>(row, col)\<close>, and the export of the canvas as a named slice.
\<close>

definition render_cell :: "'p image \<Rightarrow> number \<Rightarrow> number \<Rightarrow> number \<Rightarrow> nat \<Rightarrow> nat \<Rightarrow> 'p canvas \<Rightarrow> 'p canvas" where
  "render_cell img cellWidth cellHeight borderRadius row col canvas0 =
     (let c1 = set_width cellWidth canvas0;
          c2 = set_height cellHeight c1;
          c3 = clearRect 0 0 cellWidth cellHeight c2;
          c4 = beginPath c3;
          c5 = moveTo borderRadius 0 c4;
          c6 = lineTo (cellWidth - borderRadius) 0 c5;
          c7 = quadraticCurveTo cellWidth 0 cellWidth borderRadius c6;
          c8 = lineTo cellWidth (cellHeight - borderRadius) c7;
          c9 = quadraticCurveTo cellWidth cellHeight (cellWidth - borderRadius) cellHeight c8;
          c10 = lineTo borderRadius cellHeight c9;
          c11 = quadraticCurveTo 0 cellHeight 0 (cellHeight - borderRadius) c10;
          c12 = lineTo 0 borderRadius c11;
          c13 = quadraticCurveTo 0 0 borderRadius 0 c12;
          c14 = closePath c13;
          c15 = save c14;
          c16 = clip c15;
          sourceX = of_nat col * cellWidth;
          sourceY = of_nat row * cellHeight;
          c17 = drawImage9 img sourceX sourceY cellWidth cellHeight 0 0 cellWidth cellHeight c16
      in restore c17)"

definition export_slice :: "'p canvas \<Rightarrow> nat \<Rightarrow> nat \<Rightarrow> 'p SlicedImage" where
  "export_slice canvas row col =
     (let url = toDataURL (ascii ''image/png'') canvas;
          index = row * COLS + col + 1
      in \<lparr>blob = url, dataUrl = url,
          fileName = ascii ''meme_'' @ padStart 2 (ascii ''0'') (toString index) @ ascii ''.png'',
          slice_id = ascii ''meme-'' @ toString index\<rparr>)"

function col_loop :: "'p image \<Rightarrow> number \<Rightarrow> number \<Rightarrow> number \<Rightarrow> nat \<Rightarrow> nat \<Rightarrow>
    'p canvas \<times> 'p SlicedImage list \<Rightarrow> 'p canvas \<times> 'p SlicedImage list" where
  "col_loop img cellWidth cellHeight borderRadius row col st =
     (if col < COLS then
        (let canvas = render_cell img cellWidth cellHeight borderRadius row col (fst st)
         in col_loop img cellWidth cellHeight borderRadius row (col + 1)
              (canvas, snd st @ [export_slice canvas row col]))
      else st)"
  by pat_completeness auto
termination
  by (relation "measure (\<lambda>(img, cw, ch, r, row, col, st). COLS - col)") auto

declare col_loop.simps [simp del]

function row_loop :: "'p image \<Rightarrow> number \<Rightarrow> number \<Rightarrow> number \<Rightarrow> nat \<Rightarrow>
    'p canvas \<times> 'p SlicedImage list \<Rightarrow> 'p canvas \<times> 'p SlicedImage list" where
  "row_loop img cellWidth cellHeight borderRadius row st =
     (if row < ROWS then
        row_loop img cellWidth cellHeight borderRadius (row + 1)
          (col_loop img cellWidth cellHeight borderRadius row 0 st)
      else st)"
  by pat_completeness auto
termination
  by (relation "measure (\<lambda>(img, cw, ch, r, row, st). ROWS - row)") auto

declare row_loop.simps [simp del]

text \<open>The message of the error raised when the image fails to load (a Chinese sentence of 15 code units).\<close>

definition load_failed_message :: js_string where
  "load_failed_message =
     [0x52A0, 0x8F7D, 0x751F, 0x6210, 0x7684, 0x56FE, 0x7247, 0x5931, 0x8D25, 0xFF0C,
      0x65E0, 0x6CD5, 0x5207, 0x7247, 0x3002]"

text \<open>The three constants that \<open>sliceMemeGrid\<close> computes from the decoded image before the loops.\<close>

definition cellWidth :: "'p image \<Rightarrow> number" where
  "cellWidth img = of_nat (width img) / of_nat COLS"

definition cellHeight :: "'p image \<Rightarrow> number" where
  "cellHeight img = of_nat (height img) / of_nat ROWS"

definition borderRadius :: "'p image \<Rightarrow> number" where
  "borderRadius img = min (cellWidth img) (cellHeight img) * (5 / 100)"

definition sliceMemeGrid :: "'p host \<Rightarrow> js_string \<Rightarrow> js_error + 'p SlicedImage list" where
  "sliceMemeGrid h imageBase64 =
     (case decode h (ascii ''data:image/png;base64,'' @ imageBase64) of
        None \<Rightarrow> Inl (Error load_failed_message)
      | Some img \<Rightarrow>
          if \<not> has_context h then Inl (Error (ascii ''Could not get canvas context''))
          else Inr (snd (row_loop img (cellWidth img) (cellHeight img) (borderRadius img) 0
                          (createElement_canvas, []))))"

text \<open>
  The slice of cell \<open>(row, col)\<close>: what the loop body exports in the iteration for
  that cell. The body resizes the canvas first, so the slice does not depend on the canvas
  the iteration starts from.
\<close>

definition cell_canvas :: "'p image \<Rightarrow> nat \<Rightarrow> nat \<Rightarrow> 'p canvas" where
  "cell_canvas img row col =
     render_cell img (cellWidth img) (cellHeight img) (borderRadius img) row col createElement_canvas"

definition cell_slice :: "'p image \<Rightarrow> nat \<Rightarrow> nat \<Rightarrow> 'p SlicedImage" where
  "cell_slice img row col = export_slice (cell_canvas img row col) row col"

text \<open>A host that decodes every input to the given image and provides a 2D context.\<close>

definition host_of :: "'p image \<Rightarrow> 'p host" where
  "host_of img = \<lparr>decode = (\<lambda>s. Some img), has_context = True\<rparr>"

text \<open>A 3840 by 2160 composite whose pixel at \<open>(x, y)\<close> is the pair \<open>(x, y)\<close>.\<close>

definition composite_4k :: "(nat \<times> nat) image" where
  "composite_4k = \<lparr>width = 3840, height = 2160, pixel_at = (\<lambda>x y. (x, y))\<rparr>"

text \<open>The list of all slices in row-major order, the closed form of the two loops.\<close>

definition grid_slices :: "'p image \<Rightarrow> 'p SlicedImage list" where
  "grid_slices img = concat (map (\<lambda>row. map (cell_slice img row) [0..<COLS]) [0..<ROWS])"


section \<open>The cover-fit resizer\<close>

datatype asset_kind = Banner | Logo

record 'p MarketingAsset = "'p file_asset" +
  asset_type :: asset_kind

text \<open>
  The string tests \<open>processImage\<close> makes on the file name.
  \<open>toLowerCase\<close> is modelled on the letters A to Z; other code units are left
  as they are, which does not change whether the result ends with \<open>.png\<close>.
\<close>

definition toLowerCase :: "js_string \<Rightarrow> js_string" where
  "toLowerCase s = map (\<lambda>c. if 65 \<le> c \<and> c \<le> 90 then c + 32 else c) s"

definition endsWith :: "js_string \<Rightarrow> js_string \<Rightarrow> bool" where
  "endsWith s suffix \<longleftrightarrow> length suffix \<le> length s \<and> drop (length s - length suffix) s = suffix"

definition includes_str :: "js_string \<Rightarrow> js_string \<Rightarrow> bool" where
  "includes_str s part \<longleftrightarrow> list_ex (\<lambda>i. take (length part) (drop i s) = part) [0..<Suc (length s)]"

text \<open>The scale factor and the offsets that \<open>processImage\<close> computes for the draw call.\<close>

definition scale :: "'p image \<Rightarrow> number \<Rightarrow> number \<Rightarrow> number" where
  "scale img targetWidth targetHeight =
     max (targetWidth / of_nat (width img)) (targetHeight / of_nat (height img))"

definition offset_x :: "'p image \<Rightarrow> number \<Rightarrow> number \<Rightarrow> number" where
  "offset_x img targetWidth targetHeight =
     (targetWidth / 2) - (of_nat (width img) / 2) * scale img targetWidth targetHeight"

definition offset_y :: "'p image \<Rightarrow> number \<Rightarrow> number \<Rightarrow> number" where
  "offset_y img targetWidth targetHeight =
     (targetHeight / 2) - (of_nat (height img) / 2) * scale img targetWidth targetHeight"

definition processImage :: "'p host \<Rightarrow> js_string \<Rightarrow> number \<Rightarrow> number \<Rightarrow> js_string \<Rightarrow>
    js_error + 'p MarketingAsset" where
  "processImage h imageBase64 targetWidth targetHeight name =
     (case decode h (ascii ''data:image/png;base64,'' @ imageBase64) of
        None \<Rightarrow> Inl (Error (ascii ''Image processing failed''))
      | Some img \<Rightarrow>
          if \<not> has_context h then Inl (Error (ascii ''Could not get canvas context''))
          else
            (let canvas = set_height targetHeight (set_width targetWidth createElement_canvas);
                 canvas = drawImage5 img (offset_x img targetWidth targetHeight)
                            (offset_y img targetWidth targetHeight)
                            (of_nat (width img) * scale img targetWidth targetHeight)
                            (of_nat (height img) * scale img targetWidth targetHeight) canvas;
                 mimeType = (if endsWith (toLowerCase name) (ascii ''.png'')
                             then ascii ''image/png'' else ascii ''image/jpeg'');
                 url = toDataURL mimeType canvas
             in Inr \<lparr>blob = url, dataUrl = url, fileName = name,
                      asset_type = (if includes_str name (ascii ''banner'') then Banner else Logo)\<rparr>))"


text \<open>A source image of 1000 by 1000 pixels.\<close>

definition source_1000 :: "(nat \<times> nat) image" where
  "source_1000 = \<lparr>width = 1000, height = 1000, pixel_at = (\<lambda>x y. (x, y))\<rparr>"

section \<open>The package writer\<close>

text \<open>
  The archive under construction is a map from entry names to entries.
  \<open>zip.folder(name)\<close> adds the folder entry when it is absent and gives back the
  prefix under which files of the folder are stored; \<open>file(name, data)\<close> stores the
  data under the prefix followed by the name, replacing an entry of that name. (Folder
  entries that the library adds for a \<open>/\<close> inside a file name are left out; they
  never replace a file.)
\<close>

datatype 'p zip_entry = Folder | BlobFile "'p encoded" | TextFile js_string

type_synonym 'p zip = "js_string \<rightharpoonup> 'p zip_entry"

definition zip_folder :: "js_string \<Rightarrow> 'p zip \<Rightarrow> 'p zip \<times> js_string" where
  "zip_folder name z =
     (let key = name @ ascii ''/''
      in ((if z key = None then z(key \<mapsto> Folder) else z), key))"

definition zip_file :: "js_string \<Rightarrow> js_string \<Rightarrow> 'p zip_entry \<Rightarrow> 'p zip \<Rightarrow> 'p zip" where
  "zip_file dir name data z = z(dir @ name \<mapsto> data)"

record meta_data =
  title :: js_string
  description :: js_string

definition infoContent :: "meta_data \<Rightarrow> js_string" where
  "infoContent metaData =
     ascii ''Title: '' @ title metaData @ [10, 10] @ ascii ''Description:'' @ [10] @
     description metaData @ [10, 10] @ ascii ''Generated by AI Creative Meme Studio''"

text \<open>
  \<open>downloadBatch\<close> gives the archive it built and the file name under which it is
  saved.
\<close>

definition downloadBatch :: "'p SlicedImage list \<Rightarrow> 'p MarketingAsset list \<Rightarrow> meta_data option \<Rightarrow>
    'p zip \<times> js_string" where
  "downloadBatch slices extraAssets metaData =
     (let (zip1, stickersFolder) = zip_folder (ascii ''stickers'') Map.empty;
          zip2 = fold (\<lambda>slice. zip_file stickersFolder (fileName slice) (BlobFile (blob slice))) slices zip1;
          zip3 = fold (\<lambda>asset. zip_file [] (fileName asset) (BlobFile (blob asset))) extraAssets zip2;
          zip4 = (case metaData of
                    None \<Rightarrow> zip3
                  | Some m \<Rightarrow> zip_file [] (ascii ''info.txt'') (TextFile (infoContent m)) zip3)
      in (zip4, ascii ''meme_pack.zip''))"

text \<open>A small batch: two slices, a banner, a logo and metadata.\<close>

definition sample_raster :: "nat \<Rightarrow> nat encoded" where
  "sample_raster n =
     \<lparr>mime = ascii ''image/png'', enc_width = 1, enc_height = 1, pixels = (\<lambda>x y. Copied n)\<rparr>"

definition sample_slices :: "nat SlicedImage list" where
  "sample_slices =
     [\<lparr>blob = sample_raster 1, dataUrl = sample_raster 1, fileName = ascii ''meme_01.png'',
       slice_id = ascii ''meme-1''\<rparr>,
      \<lparr>blob = sample_raster 2, dataUrl = sample_raster 2, fileName = ascii ''meme_02.png'',
       slice_id = ascii ''meme-2''\<rparr>]"

definition sample_assets :: "nat MarketingAsset list" where
  "sample_assets =
     [\<lparr>blob = sample_raster 3, dataUrl = sample_raster 3, fileName = ascii ''banner.png'',
       asset_type = Banner\<rparr>,
      \<lparr>blob = sample_raster 4, dataUrl = sample_raster 4, fileName = ascii ''logo.png'',
       asset_type = Logo\<rparr>]"

definition sample_meta :: meta_data where
  "sample_meta = \<lparr>title = ascii ''Cats'', description = ascii ''Office cats''\<rparr>"

section \<open>The metadata request\<close>

text \<open>The values that \<open>JSON.parse\<close> produces.\<close>

datatype json = JNull | JBool bool | JNumber number | JString js_string
  | JArray "json list" | JObject "(js_string \<times> json) list"

record MemePromptParams =
  userPrompt :: js_string
  referenceImageBase64 :: "js_string option"
  referenceImageMimeType :: "js_string option"

text \<open>\<open>String.prototype.substring(0, n)\<close>: the first \<open>n\<close> code units.\<close>

definition substring0 :: "nat \<Rightarrow> js_string \<Rightarrow> js_string" where
  "substring0 n s = take n s"

text \<open>The fallback title, a Chinese phrase of five code units.\<close>

definition fallback_title :: js_string where
  "fallback_title = [0x521B, 0x610F, 0x8868, 0x60C5, 0x5305]"

definition fallback_metadata :: "MemePromptParams \<Rightarrow> json" where
  "fallback_metadata params =
     JObject [(ascii ''title'', JString fallback_title),
              (ascii ''description'', JString (substring0 100 (userPrompt params)))]"

text \<open>
  \<open>generateMemeMetadata\<close>, given the two things the host supplies: the parser
  \<open>JSON.parse\<close> (\<open>Inl\<close> when it throws) and the outcome of the request to
  the model, which is a rejection or a response whose \<open>text\<close> may be undefined. The
  request is awaited outside the \<open>try\<close> block, so its rejection propagates; the
  \<open>try\<close> block takes the text, or \<open>{}\<close> when the text is undefined or
  empty, and parses it; the \<open>catch\<close> block gives the fallback.
\<close>

definition generateMemeMetadata :: "(js_string \<Rightarrow> js_error + json) \<Rightarrow> js_error + js_string option \<Rightarrow>
    MemePromptParams \<Rightarrow> js_error + json" where
  "generateMemeMetadata JSON_parse response params =
     (case response of
        Inl e \<Rightarrow> Inl e
      | Inr response_text \<Rightarrow>
          (let text = (case response_text of
                         None \<Rightarrow> ascii ''{}''
                       | Some t \<Rightarrow> if t = [] then ascii ''{}'' else t)
           in case JSON_parse text of
                Inr v \<Rightarrow> Inr v
              | Inl e \<Rightarrow> Inr (fallback_metadata params)))"

section \<open>The batch handler\<close>

datatype AppState = IDLE | GENERATING | PROCESSING | COMPLETE | ERROR

record js_file =
  file_name :: js_string
  file_type :: js_string

record 'p app_state =
  prompt :: js_string
  refImage :: "js_file option"
  status :: AppState
  statusMessage :: js_string
  errorMsg :: "js_string option"
  originalImage :: "js_string option"
  slicedImages :: "'p SlicedImage list"
  banner :: "'p MarketingAsset option"
  logo :: "'p MarketingAsset option"
  metaData :: "json option"

text \<open>
  What the handler calls outside itself: the key check, the file reader, the four
  generation requests, the order in which the four requests settle, and the host of the
  image functions.
\<close>

record 'p services =
  ensureApiKey :: "js_error + bool"
  fileToBase64 :: "js_file \<Rightarrow> js_error + js_string"
  generateMemeImage :: "MemePromptParams \<Rightarrow> js_error + js_string"
  generateBanner :: "MemePromptParams \<Rightarrow> js_error + js_string"
  generateLogo :: "MemePromptParams \<Rightarrow> js_error + js_string"
  requestMetadata :: "MemePromptParams \<Rightarrow> js_error + json"
  settle_order :: "nat list"
  image_host :: "'p host"

text \<open>
  \<open>String.prototype.trim\<close> removes white space and line terminators from both
  ends.
\<close>

definition is_white_space :: "16 word \<Rightarrow> bool" where
  "is_white_space c \<longleftrightarrow>
     c \<in> set [0x09, 0x0A, 0x0B, 0x0C, 0x0D, 0x20, 0xA0, 0x1680, 0x2028, 0x2029, 0x202F, 0x205F,
              0x3000, 0xFEFF] \<or> (0x2000 \<le> c \<and> c \<le> 0x200A)"

definition trim :: "js_string \<Rightarrow> js_string" where
  "trim s = rev (dropWhile is_white_space (rev (dropWhile is_white_space s)))"

text \<open>
  \<open>Promise.all\<close> on the four requests: all four are issued; the result is the four
  values when all fulfil, and otherwise the rejection of the request that rejects first in
  the order of settling.
\<close>

definition rejection :: "js_error + 'a \<Rightarrow> js_error option" where
  "rejection r = (case r of Inl e \<Rightarrow> Some e | Inr v \<Rightarrow> None)"

definition first_rejection :: "nat list \<Rightarrow> js_error option list \<Rightarrow> js_error" where
  "first_rejection order rs =
     (case find (\<lambda>i. i < length rs \<and> rs ! i \<noteq> None) (order @ [0..<length rs]) of
        Some i \<Rightarrow> the (rs ! i)
      | None \<Rightarrow> NonError)"

definition promise_all4 :: "nat list \<Rightarrow> js_error + 'a \<Rightarrow> js_error + 'b \<Rightarrow> js_error + 'c \<Rightarrow> js_error + 'd \<Rightarrow>
    js_error + 'a \<times> 'b \<times> 'c \<times> 'd" where
  "promise_all4 order a b c d =
     (case (a, b, c, d) of
        (Inr va, Inr vb, Inr vc, Inr vd) \<Rightarrow> Inr (va, vb, vc, vd)
      | _ \<Rightarrow> Inl (first_rejection order [rejection a, rejection b, rejection c, rejection d]))"

text \<open>The messages of the handler, Chinese sentences given by their code units.\<close>

definition prompt_required_message :: js_string where
  "prompt_required_message =
     [0x8BF7, 0x8F93, 0x5165, 0x63D0, 0x793A, 0x8BCD, 0x6765, 0x63CF, 0x8FF0, 0x60A8, 0x7684,
      0x8868, 0x60C5, 0x5305, 0x3002]"

definition unexpected_error_message :: js_string where
  "unexpected_error_message =
     [0x751F, 0x6210, 0x8FC7, 0x7A0B, 0x4E2D, 0x53D1, 0x751F, 0x610F, 0x5916, 0x9519, 0x8BEF, 0x3002]"

definition initializing_message :: js_string where
  "initializing_message = [0x6B63, 0x5728, 0x521D, 0x59CB, 0x5316, 0x2E, 0x2E, 0x2E]"

definition generating_message :: js_string where
  "generating_message =
     [0x6B63, 0x5728, 0x751F, 0x6210, 0x8868, 0x60C5, 0x5305, 0x3001, 0x6A2A, 0x5E45, 0x3001,
      0x4C, 0x6F, 0x67, 0x6F, 0x20, 0x548C, 0x6587, 0x6848, 0x2E, 0x2E, 0x2E]"

definition processing_message :: js_string where
  "processing_message =
     [0x6B63, 0x5728, 0x5207, 0x7247, 0x548C, 0x538B, 0x7F29, 0x56FE, 0x7247, 0x2E, 0x2E, 0x2E]"

text \<open>\<open>err.message || fallback\<close>.\<close>

definition message_or :: "js_error \<Rightarrow> js_string \<Rightarrow> js_string" where
  "message_or err fallback = (case err of Error m \<Rightarrow> if m = [] then fallback else m | NonError \<Rightarrow> fallback)"

text \<open>Step 2 of the handler: the request parameters, with the reference image when one is set.\<close>

definition build_params :: "'p services \<Rightarrow> 'p app_state \<Rightarrow> js_error + MemePromptParams" where
  "build_params sv st =
     (case refImage st of
        None \<Rightarrow> Inr \<lparr>userPrompt = prompt st, referenceImageBase64 = None, referenceImageMimeType = None\<rparr>
      | Some f \<Rightarrow>
          (case fileToBase64 sv f of
             Inl e \<Rightarrow> Inl e
           | Inr refBase64 \<Rightarrow>
               Inr \<lparr>userPrompt = prompt st, referenceImageBase64 = Some refBase64,
                    referenceImageMimeType = Some (file_type f)\<rparr>))"

text \<open>
  The \<open>try\<close> block of \<open>handleGenerate\<close>: the state it has reached, and the
  error thrown, if any. State updates made before a throw stay.
\<close>

definition try_block :: "'p services \<Rightarrow> 'p app_state \<Rightarrow> 'p app_state \<times> js_error option" where
  "try_block sv st0 =
     (let st1 = st0\<lparr>errorMsg := None, status := GENERATING, statusMessage := initializing_message\<rparr>
      in case ensureApiKey sv of
           Inl e \<Rightarrow> (st1, Some e)
         | Inr _ \<Rightarrow>
        (case build_params sv st1 of
           Inl e \<Rightarrow> (st1, Some e)
         | Inr params \<Rightarrow>
        (let st2 = st1\<lparr>statusMessage := generating_message\<rparr>
         in case promise_all4 (settle_order sv) (generateMemeImage sv params) (generateBanner sv params)
                   (generateLogo sv params) (requestMetadata sv params) of
              Inl e \<Rightarrow> (st2, Some e)
            | Inr (memeBase64, bannerBase64, logoBase64, meta) \<Rightarrow>
        (let st3 = st2\<lparr>originalImage := Some memeBase64, metaData := Some meta,
                         status := PROCESSING, statusMessage := processing_message\<rparr>
         in case sliceMemeGrid (image_host sv) memeBase64 of
              Inl e \<Rightarrow> (st3, Some e)
            | Inr slices \<Rightarrow>
        (let st4 = st3\<lparr>slicedImages := slices\<rparr>
         in case processImage (image_host sv) bannerBase64 750 400 (ascii ''banner.png'') of
              Inl e \<Rightarrow> (st4, Some e)
            | Inr bannerAsset \<Rightarrow>
        (let st5 = st4\<lparr>banner := Some bannerAsset\<rparr>
         in case processImage (image_host sv) logoBase64 512 512 (ascii ''logo.png'') of
              Inl e \<Rightarrow> (st5, Some e)
            | Inr logoAsset \<Rightarrow>
                (st5\<lparr>logo := Some logoAsset, status := COMPLETE, statusMessage := []\<rparr>, None)))))))"

definition handleGenerate :: "'p services \<Rightarrow> 'p app_state \<Rightarrow> 'p app_state" where
  "handleGenerate sv st =
     (if trim (prompt st) = [] then st\<lparr>errorMsg := Some prompt_required_message\<rparr>
      else
        (case try_block sv st of
           (st', None) \<Rightarrow> st'
         | (st', Some err) \<Rightarrow>
             st'\<lparr>status := ERROR, errorMsg := Some (message_or err unexpected_error_message)\<rparr>))"

text \<open>
  A run in which the logo request rejects and the other three fulfil, from the initial
  state with a prompt typed in.
\<close>

definition failing_services :: "(nat \<times> nat) services" where
  "failing_services =
     \<lparr>ensureApiKey = Inr True,
      fileToBase64 = (\<lambda>f. Inr (ascii ''QUJD'')),
      generateMemeImage = (\<lambda>p. Inr (ascii ''AAAA'')),
      generateBanner = (\<lambda>p. Inr (ascii ''BBBB'')),
      generateLogo = (\<lambda>p. Inl (Error (ascii ''No image data found in response.''))),
      requestMetadata = (\<lambda>p. Inr (fallback_metadata p)),
      settle_order = [3, 2, 0, 1],
      image_host = host_of composite_4k\<rparr>"

definition initial_state :: "js_string \<Rightarrow> (nat \<times> nat) app_state" where
  "initial_state p =
     \<lparr>prompt = p, refImage = None, status = IDLE, statusMessage = [], errorMsg = None,
      originalImage = None, slicedImages = [], banner = None, logo = None, metaData = None\<rparr>"

section \<open>Properties of the strings\<close>

lemma toString_small: "n < 10 \<Longrightarrow> toString n = [digit_unit n]"
  by (subst toString.simps) simp

lemma toString_two:
  "10 \<le> n \<Longrightarrow> n < 100 \<Longrightarrow> toString n = [digit_unit (n div 10), digit_unit (n mod 10)]"
  by (subst toString.simps) (simp add: toString_small)

section \<open>The loops of the slicer in closed form\<close>

lemma set_size_reset:
  "set_height v (set_width u c) =
     \<lparr>cv_width = to_dimension u, cv_height = to_dimension v, bitmap = (\<lambda>x y. Blank),
      path = [], clipping = Whole, saved = []\<rparr>"
  by (cases c) (simp add: set_width_def set_height_def)

lemma render_cell_fresh:
  "render_cell img cw ch r row col c = render_cell img cw ch r row col createElement_canvas"
  by (simp add: render_cell_def set_size_reset)

lemma as_rounded_rect_path:
  "0 \<le> r \<Longrightarrow> 2 * r \<le> w \<Longrightarrow> 2 * r \<le> h \<Longrightarrow> as_rounded_rect (rounded_rect_path w h r) = Some (w, h, r)"
  by (simp add: as_rounded_rect_def rounded_rect_path_def)

lemma borderRadius_bounds:
  "0 \<le> borderRadius img" "2 * borderRadius img \<le> cellWidth img" "2 * borderRadius img \<le> cellHeight img"
proof -
  have "0 \<le> cellWidth img" "0 \<le> cellHeight img"
    by (simp_all add: cellWidth_def cellHeight_def)
  then show "0 \<le> borderRadius img" "2 * borderRadius img \<le> cellWidth img"
    "2 * borderRadius img \<le> cellHeight img"
    by (simp_all add: borderRadius_def min_def)
qed

text \<open>The canvas of a cell just before the draw call, and after the whole body.\<close>

lemma render_cell_steps:
  assumes "0 \<le> r" and "2 * r \<le> cw" and "2 * r \<le> ch"
  shows "render_cell img cw ch r row col c =
     (drawImage9 img (of_nat col * cw) (of_nat row * ch) cw ch 0 0 cw ch
        \<lparr>cv_width = to_dimension cw, cv_height = to_dimension ch, bitmap = (\<lambda>x y. Blank),
         path = rounded_rect_path cw ch r, clipping = RoundedRect cw ch r, saved = [Whole]\<rparr>)
       \<lparr>clipping := Whole, saved := []\<rparr>"
proof -
  have p: "[MoveTo r 0, LineTo (cw - r) 0, QuadraticCurveTo cw 0 cw r, LineTo cw (ch - r),
      QuadraticCurveTo cw ch (cw - r) ch, LineTo r ch, QuadraticCurveTo 0 ch 0 (ch - r), LineTo 0 r,
      QuadraticCurveTo 0 0 r 0, ClosePath] = rounded_rect_path cw ch r"
    by (simp add: rounded_rect_path_def)
  have cleared: "clearRect 0 0 cw ch
      \<lparr>cv_width = to_dimension cw, cv_height = to_dimension ch, bitmap = (\<lambda>x y. Blank),
       path = [], clipping = Whole, saved = []\<rparr> =
      \<lparr>cv_width = to_dimension cw, cv_height = to_dimension ch, bitmap = (\<lambda>x y. Blank),
       path = [], clipping = Whole, saved = []\<rparr>"
    by (simp add: clearRect_def fun_eq_iff split: coverage.splits)
  show ?thesis
    unfolding render_cell_def Let_def set_size_reset cleared
    by (simp add: beginPath_def moveTo_def lineTo_def quadraticCurveTo_def closePath_def save_def
        clip_def p as_rounded_rect_path[OF assms] drawImage9_def restore_def)
qed

lemma col_loop_snd:
  "col \<le> COLS \<Longrightarrow>
   snd (col_loop img (cellWidth img) (cellHeight img) (borderRadius img) row col st) =
     snd st @ map (cell_slice img row) [col..<COLS]"
proof (induction img "cellWidth img" "cellHeight img" "borderRadius img" row col st rule: col_loop.induct)
  case (1 img row col st)
  let ?cw = "cellWidth img" and ?ch = "cellHeight img" and ?r = "borderRadius img"
  show ?case
  proof (cases "col < COLS")
    case True
    have "snd (col_loop img ?cw ?ch ?r row col st) =
          snd (col_loop img ?cw ?ch ?r row (col + 1)
                (render_cell img ?cw ?ch ?r row col (fst st),
                 snd st @ [export_slice (render_cell img ?cw ?ch ?r row col (fst st)) row col]))"
      using True by (subst col_loop.simps) (simp add: Let_def)
    also have "\<dots> = (snd st @ [cell_slice img row col]) @ map (cell_slice img row) [col + 1..<COLS]"
      using True "1.hyps"[OF True refl] render_cell_fresh[of img ?cw ?ch ?r row col "fst st"]
      by (simp add: cell_slice_def cell_canvas_def)
    finally show ?thesis using True by (simp add: upt_conv_Cons)
  next
    case False
    with "1.prems" have "col = COLS" by simp
    then show ?thesis by (subst col_loop.simps) simp
  qed
qed

lemma row_loop_snd:
  "row \<le> ROWS \<Longrightarrow>
   snd (row_loop img (cellWidth img) (cellHeight img) (borderRadius img) row st) =
     snd st @ concat (map (\<lambda>row. map (cell_slice img row) [0..<COLS]) [row..<ROWS])"
proof (induction img "cellWidth img" "cellHeight img" "borderRadius img" row st rule: row_loop.induct)
  case (1 img row st)
  let ?cw = "cellWidth img" and ?ch = "cellHeight img" and ?r = "borderRadius img"
  show ?case
  proof (cases "row < ROWS")
    case True
    have "snd (row_loop img ?cw ?ch ?r row st) =
          snd (row_loop img ?cw ?ch ?r (row + 1) (col_loop img ?cw ?ch ?r row 0 st))"
      using True by (subst row_loop.simps) simp
    also have "\<dots> = snd (col_loop img ?cw ?ch ?r row 0 st) @
        concat (map (\<lambda>row. map (cell_slice img row) [0..<COLS]) [row + 1..<ROWS])"
      using True "1.hyps"[OF True] by simp
    finally show ?thesis using True by (simp add: col_loop_snd upt_conv_Cons)
  next
    case False
    with "1.prems" have "row = ROWS" by simp
    then show ?thesis by (subst row_loop.simps) simp
  qed
qed

lemma nth_concat_uniform:
  "\<forall>xs \<in> set xss. length xs = n \<Longrightarrow> i < length xss \<Longrightarrow> j < n \<Longrightarrow>
   concat xss ! (i * n + j) = xss ! i ! j"
proof (induction xss arbitrary: i)
  case Nil
  then show ?case by simp
next
  case (Cons xs xss)
  show ?case
  proof (cases i)
    case 0
    with Cons.prems show ?thesis by (simp add: nth_append)
  next
    case (Suc k)
    with Cons.prems have "concat xss ! (k * n + j) = xss ! k ! j"
      using Cons.IH[of k] by simp
    moreover have "length xs = n" using Cons.prems by simp
    ultimately show ?thesis using Suc by (simp add: nth_append)
  qed
qed

lemma length_concat_uniform:
  "\<forall>xs \<in> set xss. length xs = n \<Longrightarrow> length (concat xss) = length xss * n"
  by (induction xss) auto

lemma sliceMemeGrid_loaded:
  "decode h (ascii ''data:image/png;base64,'' @ b64) = Some img \<Longrightarrow> has_context h \<Longrightarrow>
   sliceMemeGrid h b64 = Inr (grid_slices img)"
  by (simp add: sliceMemeGrid_def grid_slices_def row_loop_snd)

lemma length_grid_slices: "length (grid_slices img) = ROWS * COLS"
  unfolding grid_slices_def by (subst length_concat_uniform[where n = COLS]) auto

lemma grid_slices_nth:
  "row < ROWS \<Longrightarrow> col < COLS \<Longrightarrow> grid_slices img ! (row * COLS + col) = cell_slice img row col"
  unfolding grid_slices_def by (subst nth_concat_uniform[where n = COLS]) auto

lemma set_grid_slices:
  "set (grid_slices img) = {cell_slice img row col | row col. row < ROWS \<and> col < COLS}"
  unfolding grid_slices_def by auto blast

lemma fileName_cell_slice:
  "fileName (cell_slice img row col) =
     ascii ''meme_'' @ padStart 2 (ascii ''0'') (toString (row * COLS + col + 1)) @ ascii ''.png''"
  by (simp add: cell_slice_def export_slice_def Let_def)

lemma slice_id_cell_slice:
  "slice_id (cell_slice img row col) = ascii ''meme-'' @ toString (row * COLS + col + 1)"
  by (simp add: cell_slice_def export_slice_def Let_def)

lemma grid_file_names:
  "map fileName (grid_slices img) =
     map ascii [''meme_01.png'', ''meme_02.png'', ''meme_03.png'', ''meme_04.png'', ''meme_05.png'',
       ''meme_06.png'', ''meme_07.png'', ''meme_08.png'', ''meme_09.png'', ''meme_10.png'',
       ''meme_11.png'', ''meme_12.png'', ''meme_13.png'', ''meme_14.png'', ''meme_15.png'',
       ''meme_16.png'', ''meme_17.png'', ''meme_18.png'', ''meme_19.png'', ''meme_20.png'',
       ''meme_21.png'', ''meme_22.png'', ''meme_23.png'', ''meme_24.png'']"
proof -
  have rows: "[0..<ROWS] = [0, 1, 2, 3]" and cols: "[0..<COLS] = [0, 1, 2, 3, 4, 5]"
    by (simp_all add: ROWS_def COLS_def upt_conv_Cons)
  show ?thesis
    unfolding grid_slices_def rows cols
    by (simp add: fileName_cell_slice COLS_def toString_small toString_two padStart_def
        repeat_to_def ascii_def digit_unit_def)
qed


lemma to_dimension_div: "to_dimension (of_nat m / of_nat n) = m div n"
  by (simp add: to_dimension_def floor_divide_of_nat_eq)

lemma cell_canvas_size:
  "cv_width (cell_canvas img row col) = width img div COLS"
  "cv_height (cell_canvas img row col) = height img div ROWS"
  unfolding cell_canvas_def render_cell_steps[OF borderRadius_bounds]
  by (simp_all add: drawImage9_def cellWidth_def cellHeight_def to_dimension_div)

lemma cell_slice_size:
  "enc_width (blob (cell_slice img row col)) = width img div COLS"
  "enc_height (blob (cell_slice img row col)) = height img div ROWS"
  by (simp_all add: cell_slice_def export_slice_def Let_def toDataURL_def cell_canvas_size)

text \<open>
  C1. When the composite decodes (and the canvas gives a 2D context), \<open>sliceMemeGrid\<close>
  returns \<open>ROWS * COLS\<close> slices in row-major order: the slice at list position
  \<open>row * COLS + col\<close> is the one made for cell \<open>(row, col)\<close>, its index is
  \<open>row * COLS + col + 1\<close>, counted from 1, and its file name is \<open>meme_\<close>, the
  index padded with zeros to two digits, and \<open>.png\<close>: \<open>meme_01.png\<close> to
  \<open>meme_24.png\<close>.
\<close>

theorem sliceMemeGrid_row_major:
  assumes "decode h (ascii ''data:image/png;base64,'' @ b64) = Some img" and "has_context h"
  shows "\<exists>slices. sliceMemeGrid h b64 = Inr slices \<and> length slices = ROWS * COLS \<and>
     (\<forall>row < ROWS. \<forall>col < COLS.
        slices ! (row * COLS + col) = cell_slice img row col \<and>
        fileName (slices ! (row * COLS + col)) =
          ascii ''meme_'' @ padStart 2 (ascii ''0'') (toString (row * COLS + col + 1)) @ ascii ''.png'' \<and>
        slice_id (slices ! (row * COLS + col)) = ascii ''meme-'' @ toString (row * COLS + col + 1)) \<and>
     map fileName slices =
       map ascii [''meme_01.png'', ''meme_02.png'', ''meme_03.png'', ''meme_04.png'', ''meme_05.png'',
         ''meme_06.png'', ''meme_07.png'', ''meme_08.png'', ''meme_09.png'', ''meme_10.png'',
         ''meme_11.png'', ''meme_12.png'', ''meme_13.png'', ''meme_14.png'', ''meme_15.png'',
         ''meme_16.png'', ''meme_17.png'', ''meme_18.png'', ''meme_19.png'', ''meme_20.png'',
         ''meme_21.png'', ''meme_22.png'', ''meme_23.png'', ''meme_24.png'']"
proof (intro exI conjI allI impI)
  show "sliceMemeGrid h b64 = Inr (grid_slices img)"
    using assms by (rule sliceMemeGrid_loaded)
  show "length (grid_slices img) = ROWS * COLS"
    by (rule length_grid_slices)
  show "map fileName (grid_slices img) =
       map ascii [''meme_01.png'', ''meme_02.png'', ''meme_03.png'', ''meme_04.png'', ''meme_05.png'',
         ''meme_06.png'', ''meme_07.png'', ''meme_08.png'', ''meme_09.png'', ''meme_10.png'',
         ''meme_11.png'', ''meme_12.png'', ''meme_13.png'', ''meme_14.png'', ''meme_15.png'',
         ''meme_16.png'', ''meme_17.png'', ''meme_18.png'', ''meme_19.png'', ''meme_20.png'',
         ''meme_21.png'', ''meme_22.png'', ''meme_23.png'', ''meme_24.png'']"
    by (rule grid_file_names)
next
  fix row col
  assume rc: "row < ROWS" "col < COLS"
  then show "grid_slices img ! (row * COLS + col) = cell_slice img row col"
    by (rule grid_slices_nth)
  then show "fileName (grid_slices img ! (row * COLS + col)) =
      ascii ''meme_'' @ padStart 2 (ascii ''0'') (toString (row * COLS + col + 1)) @ ascii ''.png''"
    by (simp add: fileName_cell_slice)
  from rc show "slice_id (grid_slices img ! (row * COLS + col)) =
      ascii ''meme-'' @ toString (row * COLS + col + 1)"
    by (simp add: grid_slices_nth slice_id_cell_slice)
qed

theorem sliceMemeGrid_row_major_witness:
  "\<exists>slices. sliceMemeGrid (host_of composite_4k) [] = Inr slices \<and>
     fileName (slices ! 8) = ascii ''meme_09.png'' \<and> slice_id (slices ! 8) = ascii ''meme-9''"
proof -
  have d: "decode (host_of composite_4k) (ascii ''data:image/png;base64,'' @ []) = Some composite_4k"
    and c: "has_context (host_of composite_4k)"
    by (simp_all add: host_of_def)
  from sliceMemeGrid_row_major[OF d c] obtain slices where
    r: "sliceMemeGrid (host_of composite_4k) [] = Inr slices" and
    n: "\<forall>row < ROWS. \<forall>col < COLS.
        slices ! (row * COLS + col) = cell_slice composite_4k row col \<and>
        fileName (slices ! (row * COLS + col)) =
          ascii ''meme_'' @ padStart 2 (ascii ''0'') (toString (row * COLS + col + 1)) @ ascii ''.png'' \<and>
        slice_id (slices ! (row * COLS + col)) = ascii ''meme-'' @ toString (row * COLS + col + 1)"
    by blast
  have "(1::nat) < ROWS" "(2::nat) < COLS" by (simp_all add: ROWS_def COLS_def)
  with n have "fileName (slices ! (1 * COLS + 2)) =
          ascii ''meme_'' @ padStart 2 (ascii ''0'') (toString (1 * COLS + 2 + 1)) @ ascii ''.png''"
    and "slice_id (slices ! (1 * COLS + 2)) = ascii ''meme-'' @ toString (1 * COLS + 2 + 1)"
    by blast+
  then have "fileName (slices ! 8) = ascii ''meme_09.png''" "slice_id (slices ! 8) = ascii ''meme-9''"
    by (simp_all add: COLS_def toString_small padStart_def repeat_to_def ascii_def digit_unit_def)
  with r show ?thesis by blast
qed

text \<open>
  C2. For a composite of \<open>W\<close> by \<open>H\<close> pixels that decodes,
  \<open>sliceMemeGrid\<close> returns exactly \<open>COLS * ROWS = 24\<close> slices, each of
  \<open>floor (W / COLS)\<close> by \<open>floor (H / ROWS)\<close> pixels; a 3840 by 2160
  composite gives 24 slices of 640 by 540.
\<close>

theorem sliceMemeGrid_count_and_size:
  assumes "decode h (ascii ''data:image/png;base64,'' @ b64) = Some img" and "has_context h"
  shows "\<exists>slices. sliceMemeGrid h b64 = Inr slices \<and>
     length slices = COLS * ROWS \<and> COLS * ROWS = 24 \<and>
     (\<forall>s \<in> set slices.
        enc_width (blob s) = width img div COLS \<and> enc_height (blob s) = height img div ROWS \<and>
        int (width img div COLS) = \<lfloor>of_nat (width img) / of_nat COLS :: rat\<rfloor> \<and>
        int (height img div ROWS) = \<lfloor>of_nat (height img) / of_nat ROWS :: rat\<rfloor> \<and>
        (width img = 3840 \<and> height img = 2160 \<longrightarrow>
           enc_width (blob s) = 640 \<and> enc_height (blob s) = 540))"
proof (intro exI conjI ballI)
  show "sliceMemeGrid h b64 = Inr (grid_slices img)"
    using assms by (rule sliceMemeGrid_loaded)
  show "length (grid_slices img) = COLS * ROWS"
    by (simp add: length_grid_slices)
  show "COLS * ROWS = 24"
    by (simp add: COLS_def ROWS_def)
next
  fix s assume "s \<in> set (grid_slices img)"
  then obtain row col where s: "s = cell_slice img row col"
    by (auto simp: set_grid_slices)
  show w: "enc_width (blob s) = width img div COLS" and h: "enc_height (blob s) = height img div ROWS"
    by (simp_all add: s cell_slice_size)
  show "int (width img div COLS) = \<lfloor>of_nat (width img) / of_nat COLS :: rat\<rfloor>"
    and "int (height img div ROWS) = \<lfloor>of_nat (height img) / of_nat ROWS :: rat\<rfloor>"
    by (simp_all add: floor_divide_of_nat_eq)
  show "width img = 3840 \<and> height img = 2160 \<longrightarrow>
           enc_width (blob s) = 640 \<and> enc_height (blob s) = 540"
    by (simp add: w h COLS_def ROWS_def)
qed

theorem sliceMemeGrid_count_and_size_witness:
  "\<exists>slices. sliceMemeGrid (host_of composite_4k) [] = Inr slices \<and> length slices = 24 \<and>
     (\<forall>s \<in> set slices. enc_width (blob s) = 640 \<and> enc_height (blob s) = 540)"
proof -
  have d: "decode (host_of composite_4k) (ascii ''data:image/png;base64,'' @ []) = Some composite_4k"
    and c: "has_context (host_of composite_4k)"
    by (simp_all add: host_of_def)
  have "width composite_4k = 3840 \<and> height composite_4k = 2160"
    by (simp add: composite_4k_def)
  with sliceMemeGrid_count_and_size[OF d c] show ?thesis
    by (metis (no_types, lifting))
qed

text \<open>
  C6. When the composite fails to decode, \<open>sliceMemeGrid\<close> rejects with one error
  that carries a non-empty message, and returns no list of slices, partial or whole.
\<close>

theorem sliceMemeGrid_decode_failure:
  assumes "decode h (ascii ''data:image/png;base64,'' @ b64) = None"
  shows "sliceMemeGrid h b64 = Inl (Error load_failed_message) \<and> load_failed_message \<noteq> [] \<and>
         (\<forall>slices. sliceMemeGrid h b64 \<noteq> Inr slices)"
  using assms by (simp add: sliceMemeGrid_def load_failed_message_def)

theorem sliceMemeGrid_decode_failure_witness:
  "sliceMemeGrid \<lparr>decode = (\<lambda>s. None :: nat image option), has_context = True\<rparr> (ascii ''AAAA'') =
     Inl (Error load_failed_message)"
  using sliceMemeGrid_decode_failure
    [of "\<lparr>decode = (\<lambda>s. None :: nat image option), has_context = True\<rparr>" "ascii ''AAAA''"]
  by simp

section \<open>Pixels of the slices\<close>



lemma corner_cut_mono:
  assumes "corner_cut r u v" and "0 \<le> u'" and "u' \<le> u" and "0 \<le> v'" and "v' \<le> v"
  shows "corner_cut r u' v'"
proof -
  from assms have pos: "0 < r - u - v" and lt: "4 * u * v < (r - u - v)\<^sup>2"
    by (simp_all add: corner_cut_def)
  have "4 * u' * v' \<le> 4 * u * v"
    using assms by (simp add: corner_cut_def mult_mono)
  moreover have "(r - u - v)\<^sup>2 \<le> (r - u' - v')\<^sup>2"
    using pos assms by (intro power_mono) simp_all
  ultimately have "4 * u' * v' < (r - u' - v')\<^sup>2"
    using lt by linarith
  moreover have "u' + v' < r" using pos assms by simp
  ultimately show ?thesis using assms by (simp add: corner_cut_def)
qed

text \<open>No interior point of a pixel that is wholly outside lies in the rounded rectangle.\<close>

lemma pixel_outside_sound:
  assumes "pixel_outside w h r x y"
    and "of_nat x < fst p" and "fst p < of_nat x + 1"
    and "of_nat y < snd p" and "snd p < of_nat y + 1"
  shows "\<not> in_rounded_rect w h r p"
proof
  assume reg: "in_rounded_rect w h r p"
  then have box: "0 \<le> fst p" "fst p \<le> w" "0 \<le> snd p" "snd p \<le> h"
    by (simp_all add: in_rounded_rect_def)
  from assms(1) consider "w \<le> of_nat x" | "h \<le> of_nat y"
    | "corner_cut r (of_nat x + 1) (of_nat y + 1)" | "corner_cut r (w - of_nat x) (of_nat y + 1)"
    | "corner_cut r (of_nat x + 1) (h - of_nat y)" | "corner_cut r (w - of_nat x) (h - of_nat y)"
    by (auto simp: pixel_outside_def)
  then show False
  proof cases
    case 1
    with assms box show False by simp
  next
    case 2
    with assms box show False by simp
  next
    case 3
    then have "corner_cut r (fst p) (snd p)"
      using assms box by (intro corner_cut_mono[OF 3]) simp_all
    with reg show False by (simp add: in_rounded_rect_def)
  next
    case 4
    then have "corner_cut r (w - fst p) (snd p)"
      using assms box by (intro corner_cut_mono[OF 4]) simp_all
    with reg show False by (simp add: in_rounded_rect_def)
  next
    case 5
    then have "corner_cut r (fst p) (h - snd p)"
      using assms box by (intro corner_cut_mono[OF 5]) simp_all
    with reg show False by (simp add: in_rounded_rect_def)
  next
    case 6
    then have "corner_cut r (w - fst p) (h - snd p)"
      using assms box by (intro corner_cut_mono[OF 6]) simp_all
    with reg show False by (simp add: in_rounded_rect_def)
  qed
qed


text \<open>Every point of a pixel that is wholly inside lies in the rounded rectangle.\<close>

lemma pixel_inside_sound:
  assumes ins: "pixel_inside w h r x y"
    and px: "of_nat x \<le> fst p" "fst p \<le> of_nat x + 1"
    and py: "of_nat y \<le> snd p" "snd p \<le> of_nat y + 1"
  shows "in_rounded_rect w h r p"
proof -
  from ins have c00: "in_rounded_rect w h r (of_nat x, of_nat y)"
    and c10: "in_rounded_rect w h r (of_nat x + 1, of_nat y)"
    and c01: "in_rounded_rect w h r (of_nat x, of_nat y + 1)"
    and c11: "in_rounded_rect w h r (of_nat x + 1, of_nat y + 1)"
    by (simp_all add: pixel_inside_def)
  from c11 have box: "of_nat x + 1 \<le> w" "of_nat y + 1 \<le> h"
    by (simp_all add: in_rounded_rect_def)
  have "\<not> corner_cut r (fst p) (snd p)"
  proof
    assume a: "corner_cut r (fst p) (snd p)"
    have "corner_cut r (of_nat x) (of_nat y)"
      using px py by (intro corner_cut_mono[OF a]) simp_all
    with c00 show False by (simp add: in_rounded_rect_def)
  qed
  moreover have "\<not> corner_cut r (w - fst p) (snd p)"
  proof
    assume a: "corner_cut r (w - fst p) (snd p)"
    have "corner_cut r (w - (of_nat x + 1)) (of_nat y)"
      using px py box by (intro corner_cut_mono[OF a]) simp_all
    with c10 show False by (simp add: in_rounded_rect_def)
  qed
  moreover have "\<not> corner_cut r (fst p) (h - snd p)"
  proof
    assume a: "corner_cut r (fst p) (h - snd p)"
    have "corner_cut r (of_nat x) (h - (of_nat y + 1))"
      using px py box by (intro corner_cut_mono[OF a]) simp_all
    with c01 show False by (simp add: in_rounded_rect_def)
  qed
  moreover have "\<not> corner_cut r (w - fst p) (h - snd p)"
  proof
    assume a: "corner_cut r (w - fst p) (h - snd p)"
    have "corner_cut r (w - (of_nat x + 1)) (h - (of_nat y + 1))"
      using px py box by (intro corner_cut_mono[OF a]) simp_all
    with c11 show False by (simp add: in_rounded_rect_def)
  qed
  moreover have "0 \<le> fst p" "fst p \<le> w" "0 \<le> snd p" "snd p \<le> h"
    using px py box by simp_all
  ultimately show ?thesis by (simp add: in_rounded_rect_def)
qed








lemma quadratic_curve_boundary:
  assumes "quadratic_curve (0, r) (0, 0) (r, 0) t = (u, v)"
  shows "(r - u - v)\<^sup>2 = 4 * u * v"
proof -
  from assms have u: "u = t\<^sup>2 * r" and v: "v = (1 - t)\<^sup>2 * r"
    by (simp_all add: quadratic_curve_def)
  show ?thesis unfolding u v by (simp add: power2_eq_square algebra_simps)
qed








section \<open>Properties of the cover-fit resizer\<close>










lemma source_1000_geometry:
  "scale source_1000 750 400 = 3 / 4"
  "of_nat (width source_1000) * scale source_1000 750 400 = 750"
  "of_nat (height source_1000) * scale source_1000 750 400 = 750"
  "offset_x source_1000 750 400 = 0"
  "offset_y source_1000 750 400 = - 175"
  by (simp_all add: scale_def offset_x_def offset_y_def source_1000_def)





section \<open>Properties of the package writer\<close>

lemma fold_zip_file_lookup:
  "fold (\<lambda>a. zip_file dir (fileName a) (BlobFile (blob a))) as z k =
     (case find (\<lambda>a. dir @ fileName a = k) (rev as) of
        Some a \<Rightarrow> Some (BlobFile (blob a))
      | None \<Rightarrow> z k)"
  by (induction as rule: rev_induct) (simp_all add: zip_file_def)

lemma find_distinct:
  "distinct (map f xs) \<Longrightarrow> x \<in> set xs \<Longrightarrow> find (\<lambda>y. f y = f x) xs = Some x"
  by (induction xs) (auto simp: image_iff)

lemma stickers_not_info: "ascii ''stickers/'' @ n \<noteq> ascii ''info.txt''"
  by (simp add: ascii_def)

lemma downloadBatch_lookup:
  "fst (downloadBatch slices extraAssets meta) k =
     (if meta \<noteq> None \<and> k = ascii ''info.txt'' then Some (TextFile (infoContent (the meta)))
      else case find (\<lambda>a. fileName a = k) (rev extraAssets) of
        Some a \<Rightarrow> Some (BlobFile (blob a))
      | None \<Rightarrow>
         (case find (\<lambda>s. ascii ''stickers/'' @ fileName s = k) (rev slices) of
            Some s \<Rightarrow> Some (BlobFile (blob s))
          | None \<Rightarrow> if k = ascii ''stickers/'' then Some Folder else None))"
  by (cases meta)
     (auto simp: downloadBatch_def zip_folder_def Let_def fold_zip_file_lookup zip_file_def ascii_def
           split: option.splits)


lemma downloadBatch_slice_present:
  "s \<in> set slices \<Longrightarrow>
   fst (downloadBatch slices extraAssets meta) (ascii ''stickers/'' @ fileName s) \<noteq> None"
  by (auto simp: downloadBatch_lookup find_None_iff split: option.splits)

lemma downloadBatch_asset_present:
  "a \<in> set extraAssets \<Longrightarrow> fst (downloadBatch slices extraAssets meta) (fileName a) \<noteq> None"
  by (auto simp: downloadBatch_lookup find_None_iff split: option.splits)

lemma downloadBatch_info:
  "fst (downloadBatch slices extraAssets (Some m)) (ascii ''info.txt'') = Some (TextFile (infoContent m))"
  by (simp add: downloadBatch_lookup)

lemma downloadBatch_name: "snd (downloadBatch slices extraAssets meta) = ascii ''meme_pack.zip''"
  by (simp add: downloadBatch_def Let_def split_def)

lemma downloadBatch_asset_content:
  assumes "distinct (map fileName extraAssets)" and "a \<in> set extraAssets"
    and "fileName a \<noteq> ascii ''info.txt''"
  shows "fst (downloadBatch slices extraAssets meta) (fileName a) = Some (BlobFile (blob a))"
proof -
  have "distinct (map fileName (rev extraAssets))" and "a \<in> set (rev extraAssets)"
    using assms by (simp_all add: rev_map[symmetric] del: rev_map)
  then have "find (\<lambda>b. fileName b = fileName a) (rev extraAssets) = Some a"
    by (rule find_distinct)
  then show ?thesis using assms(3) by (simp add: downloadBatch_lookup)
qed

lemma downloadBatch_slice_content:
  assumes "distinct (map fileName slices)" and "s \<in> set slices"
    and "\<forall>a \<in> set extraAssets. take 9 (fileName a) \<noteq> ascii ''stickers/''"
  shows "fst (downloadBatch slices extraAssets meta) (ascii ''stickers/'' @ fileName s) =
     Some (BlobFile (blob s))"
proof -
  have "distinct (map fileName (rev slices))" and "s \<in> set (rev slices)"
    using assms by (simp_all add: rev_map[symmetric] del: rev_map)
  then have "find (\<lambda>b. fileName b = fileName s) (rev slices) = Some s"
    by (rule find_distinct)
  moreover have "find (\<lambda>a. fileName a = ascii ''stickers/'' @ fileName s) (rev extraAssets) = None"
    using assms(3) by (auto simp: find_None_iff ascii_def)
  ultimately show ?thesis by (simp add: downloadBatch_lookup stickers_not_info)
qed

text \<open>
  C8. \<open>downloadBatch\<close> stores every slice under \<open>stickers/\<close> followed by
  its file name and every extra asset (banner, logo) under its file name at the root of the
  archive; when metadata is given, \<open>info.txt\<close> holds exactly \<open>Title: \<close> and
  the title, a blank line, \<open>Description:\<close> on its own line, the description, a blank
  line and \<open>Generated by AI Creative Meme Studio\<close>; the archive is saved as
  \<open>meme_pack.zip\<close>. With distinct file names that do not collide, each entry holds
  the blob of its slice or asset.
\<close>

theorem downloadBatch_layout:
  "snd (downloadBatch slices extraAssets meta) = ascii ''meme_pack.zip'' \<and>
   (\<forall>s \<in> set slices.
      fst (downloadBatch slices extraAssets meta) (ascii ''stickers/'' @ fileName s) \<noteq> None) \<and>
   (\<forall>a \<in> set extraAssets. fst (downloadBatch slices extraAssets meta) (fileName a) \<noteq> None) \<and>
   (\<forall>m. meta = Some m \<longrightarrow>
      fst (downloadBatch slices extraAssets meta) (ascii ''info.txt'') =
        Some (TextFile (ascii ''Title: '' @ title m @ [10, 10] @
                        ascii ''Description:'' @ [10] @ description m @
                        [10, 10] @ ascii ''Generated by AI Creative Meme Studio''))) \<and>
   (distinct (map fileName slices) \<and> distinct (map fileName extraAssets) \<and>
    (\<forall>a \<in> set extraAssets.
       take 9 (fileName a) \<noteq> ascii ''stickers/'' \<and> fileName a \<noteq> ascii ''info.txt'') \<longrightarrow>
    (\<forall>s \<in> set slices.
       fst (downloadBatch slices extraAssets meta) (ascii ''stickers/'' @ fileName s) =
         Some (BlobFile (blob s))) \<and>
    (\<forall>a \<in> set extraAssets.
       fst (downloadBatch slices extraAssets meta) (fileName a) = Some (BlobFile (blob a))))"
proof (intro conjI ballI allI impI)
  show "snd (downloadBatch slices extraAssets meta) = ascii ''meme_pack.zip''"
    by (rule downloadBatch_name)
next
  fix s assume "s \<in> set slices"
  then show "fst (downloadBatch slices extraAssets meta) (ascii ''stickers/'' @ fileName s) \<noteq> None"
    by (rule downloadBatch_slice_present)
next
  fix a assume "a \<in> set extraAssets"
  then show "fst (downloadBatch slices extraAssets meta) (fileName a) \<noteq> None"
    by (rule downloadBatch_asset_present)
next
  fix m assume "meta = Some m"
  then show "fst (downloadBatch slices extraAssets meta) (ascii ''info.txt'') =
        Some (TextFile (ascii ''Title: '' @ title m @ [10, 10] @
                        ascii ''Description:'' @ [10] @ description m @
                        [10, 10] @ ascii ''Generated by AI Creative Meme Studio''))"
    by (simp add: downloadBatch_info infoContent_def)
next
  fix s
  assume "distinct (map fileName slices) \<and> distinct (map fileName extraAssets) \<and>
    (\<forall>a \<in> set extraAssets.
       take 9 (fileName a) \<noteq> ascii ''stickers/'' \<and> fileName a \<noteq> ascii ''info.txt'')"
    and "s \<in> set slices"
  then show "fst (downloadBatch slices extraAssets meta) (ascii ''stickers/'' @ fileName s) =
         Some (BlobFile (blob s))"
    by (intro downloadBatch_slice_content) simp_all
next
  fix a
  assume "distinct (map fileName slices) \<and> distinct (map fileName extraAssets) \<and>
    (\<forall>a \<in> set extraAssets.
       take 9 (fileName a) \<noteq> ascii ''stickers/'' \<and> fileName a \<noteq> ascii ''info.txt'')"
    and "a \<in> set extraAssets"
  then show "fst (downloadBatch slices extraAssets meta) (fileName a) = Some (BlobFile (blob a))"
    by (intro downloadBatch_asset_content) simp_all
qed

theorem downloadBatch_layout_witness:
  "snd (downloadBatch sample_slices sample_assets (Some sample_meta)) = ascii ''meme_pack.zip'' \<and>
   fst (downloadBatch sample_slices sample_assets (Some sample_meta)) (ascii ''stickers/meme_02.png'') =
     Some (BlobFile (sample_raster 2)) \<and>
   fst (downloadBatch sample_slices sample_assets (Some sample_meta)) (ascii ''banner.png'') =
     Some (BlobFile (sample_raster 3)) \<and>
   fst (downloadBatch sample_slices sample_assets (Some sample_meta)) (ascii ''logo.png'') =
     Some (BlobFile (sample_raster 4)) \<and>
   fst (downloadBatch sample_slices sample_assets (Some sample_meta)) (ascii ''info.txt'') =
     Some (TextFile (ascii ''Title: Cats'' @ [10, 10] @ ascii ''Description:'' @ [10] @
       ascii ''Office cats'' @ [10, 10] @ ascii ''Generated by AI Creative Meme Studio''))"
proof -
  have d: "distinct (map fileName sample_slices) \<and> distinct (map fileName sample_assets) \<and>
    (\<forall>a \<in> set sample_assets.
       take 9 (fileName a) \<noteq> ascii ''stickers/'' \<and> fileName a \<noteq> ascii ''info.txt'')"
    by (simp add: sample_slices_def sample_assets_def ascii_def)
  have s: "sample_slices ! 1 \<in> set sample_slices"
    and a: "sample_assets ! 0 \<in> set sample_assets" "sample_assets ! 1 \<in> set sample_assets"
    by (simp_all add: sample_slices_def sample_assets_def)
  note t = downloadBatch_layout[of sample_slices sample_assets "Some sample_meta"]
  from t d s have "fst (downloadBatch sample_slices sample_assets (Some sample_meta))
      (ascii ''stickers/'' @ fileName (sample_slices ! 1)) = Some (BlobFile (blob (sample_slices ! 1)))"
    by blast
  moreover from t d a have "fst (downloadBatch sample_slices sample_assets (Some sample_meta))
      (fileName (sample_assets ! 0)) = Some (BlobFile (blob (sample_assets ! 0)))"
    and "fst (downloadBatch sample_slices sample_assets (Some sample_meta))
      (fileName (sample_assets ! 1)) = Some (BlobFile (blob (sample_assets ! 1)))"
    by blast+
  moreover from t have "fst (downloadBatch sample_slices sample_assets (Some sample_meta)) (ascii ''info.txt'') =
        Some (TextFile (ascii ''Title: '' @ title sample_meta @ [10, 10] @
                        ascii ''Description:'' @ [10] @ description sample_meta @
                        [10, 10] @ ascii ''Generated by AI Creative Meme Studio''))"
    by blast
  moreover from t have "snd (downloadBatch sample_slices sample_assets (Some sample_meta)) = ascii ''meme_pack.zip''"
    by blast
  ultimately show ?thesis
    by (simp add: sample_slices_def sample_assets_def sample_meta_def ascii_def)
qed

section \<open>Properties of the metadata request\<close>

lemma generateMemeMetadata_unparsable:
  "JSON_parse t = Inl e \<Longrightarrow> t \<noteq> [] \<Longrightarrow>
   generateMemeMetadata JSON_parse (Inr (Some t)) params = Inr (fallback_metadata params)"
  by (simp add: generateMemeMetadata_def)

lemma generateMemeMetadata_resolves:
  "\<exists>v. generateMemeMetadata JSON_parse (Inr response_text) params = Inr v"
  by (simp add: generateMemeMetadata_def Let_def split: sum.splits)


section \<open>Properties of the batch handler\<close>

lemma build_params_state:
  "build_params sv (st\<lparr>errorMsg := e, status := s, statusMessage := m\<rparr>) = build_params sv st"
  by (simp add: build_params_def split: option.splits sum.splits)

lemma promise_all4_rejects:
  assumes "rejection a \<noteq> None \<or> rejection b \<noteq> None \<or> rejection c \<noteq> None \<or> rejection d \<noteq> None"
  shows "promise_all4 order a b c d =
     Inl (first_rejection order [rejection a, rejection b, rejection c, rejection d])"
  using assms by (auto simp: promise_all4_def rejection_def split: sum.splits)

lemma message_or_nonempty: "message_or err unexpected_error_message \<noteq> []"
  by (simp add: message_or_def unexpected_error_message_def split: js_error.splits)

lemma first_rejection_member:
  assumes "\<exists>r \<in> set rs. r \<noteq> None"
  shows "Some (first_rejection order rs) \<in> set rs"
proof -
  from assms obtain i where i: "i < length rs" "rs ! i \<noteq> None"
    by (auto simp: in_set_conv_nth)
  then have "\<exists>j \<in> set (order @ [0..<length rs]). j < length rs \<and> rs ! j \<noteq> None"
    by auto
  then obtain j where "find (\<lambda>i. i < length rs \<and> rs ! i \<noteq> None) (order @ [0..<length rs]) = Some j"
    by (metis (mono_tags, lifting) find_None_iff not_Some_eq)
  moreover from this have "j < length rs \<and> rs ! j \<noteq> None"
    by (auto simp: find_Some_iff)
  ultimately show ?thesis
    by (auto simp: first_rejection_def)
qed

text \<open>
  C7. The four generation requests are issued together from the same parameters. When one
  of them rejects, the batch fails: the state becomes \<open>ERROR\<close>, the message of the
  first rejection (or the default message) is shown, and none of the batch's assets is
  set: the composite, the slices, the banner, the logo and the metadata are those of the
  state before the run.
\<close>

theorem handleGenerate_batch_failure:
  assumes "trim (prompt st) \<noteq> []" and "ensureApiKey sv = Inr k" and "build_params sv st = Inr params"
    and "rejection (generateMemeImage sv params) \<noteq> None \<or> rejection (generateBanner sv params) \<noteq> None \<or>
         rejection (generateLogo sv params) \<noteq> None \<or> rejection (requestMetadata sv params) \<noteq> None"
  shows "status (handleGenerate sv st) = ERROR \<and>
     errorMsg (handleGenerate sv st) =
       Some (message_or (first_rejection (settle_order sv)
               [rejection (generateMemeImage sv params), rejection (generateBanner sv params),
                rejection (generateLogo sv params), rejection (requestMetadata sv params)])
             unexpected_error_message) \<and>
     errorMsg (handleGenerate sv st) \<noteq> Some [] \<and>
     originalImage (handleGenerate sv st) = originalImage st \<and>
     slicedImages (handleGenerate sv st) = slicedImages st \<and>
     banner (handleGenerate sv st) = banner st \<and>
     logo (handleGenerate sv st) = logo st \<and>
     metaData (handleGenerate sv st) = metaData st"
proof -
  let ?e = "first_rejection (settle_order sv)
               [rejection (generateMemeImage sv params), rejection (generateBanner sv params),
                rejection (generateLogo sv params), rejection (requestMetadata sv params)]"
  have "try_block sv st =
      (st\<lparr>errorMsg := None, status := GENERATING, statusMessage := generating_message\<rparr>, Some ?e)"
    using assms(2,3) promise_all4_rejects[OF assms(4), of "settle_order sv"]
    by (simp add: try_block_def Let_def build_params_state)
  then have "handleGenerate sv st =
      st\<lparr>errorMsg := Some (message_or ?e unexpected_error_message), status := ERROR,
         statusMessage := generating_message\<rparr>"
    using assms(1) by (simp add: handleGenerate_def)
  then show ?thesis by (simp add: message_or_nonempty)
qed

theorem handleGenerate_batch_failure_witness:
  "status (handleGenerate failing_services (initial_state (ascii ''office cat''))) = ERROR \<and>
   errorMsg (handleGenerate failing_services (initial_state (ascii ''office cat''))) =
     Some (ascii ''No image data found in response.'') \<and>
   originalImage (handleGenerate failing_services (initial_state (ascii ''office cat''))) = None \<and>
   slicedImages (handleGenerate failing_services (initial_state (ascii ''office cat''))) = [] \<and>
   banner (handleGenerate failing_services (initial_state (ascii ''office cat''))) = None \<and>
   logo (handleGenerate failing_services (initial_state (ascii ''office cat''))) = None \<and>
   metaData (handleGenerate failing_services (initial_state (ascii ''office cat''))) = None"
proof -
  let ?st = "initial_state (ascii ''office cat'')"
  let ?p = "\<lparr>userPrompt = ascii ''office cat'', referenceImageBase64 = None, referenceImageMimeType = None\<rparr>"
  have 1: "trim (prompt ?st) \<noteq> []"
    by (simp add: initial_state_def trim_def ascii_def is_white_space_def)
  have 2: "ensureApiKey failing_services = Inr True"
    by (simp add: failing_services_def)
  have 3: "build_params failing_services ?st = Inr ?p"
    by (simp add: build_params_def initial_state_def)
  have 4: "rejection (generateMemeImage failing_services ?p) \<noteq> None \<or>
         rejection (generateBanner failing_services ?p) \<noteq> None \<or>
         rejection (generateLogo failing_services ?p) \<noteq> None \<or>
         rejection (requestMetadata failing_services ?p) \<noteq> None"
    by (simp add: failing_services_def rejection_def)
  have e: "first_rejection (settle_order failing_services)
               [rejection (generateMemeImage failing_services ?p), rejection (generateBanner failing_services ?p),
                rejection (generateLogo failing_services ?p), rejection (requestMetadata failing_services ?p)] =
           Error (ascii ''No image data found in response.'')"
    by (simp add: failing_services_def rejection_def first_rejection_def)
  have m: "message_or (Error (ascii ''No image data found in response.'')) unexpected_error_message =
      ascii ''No image data found in response.''"
    by (simp add: message_or_def ascii_def)
  from handleGenerate_batch_failure[OF 1 2 3 4] show ?thesis
    unfolding e m by (simp add: initial_state_def)
qed

end
